theory Spec2Isabelle
  imports Complex_Main "HOL-Library.AList"
begin

section \<open>HTTP requests, response writers and the process log\<close>

text \<open>
  The handlers of the server take an \<open>http.ResponseWriter\<close> and an \<open>*http.Request\<close>
  and print to the process log. The part of a request the code reads is a record; the
  response writer and the log are one record of state that every handler takes and
  returns.
\<close>

record request =
  Method :: string
  Path :: string
  RawQuery :: string
  RemoteAddr :: string
  Header :: "(string \<times> string) list"

text \<open>
  An operand of a call of \<open>log.Printf\<close>: a string, or the \<open>URL\<close> of a request.
\<close>

datatype operand = Str string | Url request

text \<open>
  \<open>header\<close> is the map behind \<open>w.Header()\<close>; \<open>status\<close> is \<open>None\<close> until the
  status line is written, and \<open>sent\<close> is the copy of the header map that went out with it;
  \<open>body\<close> is what has been written; \<open>logs\<close> holds the calls of \<open>log.Printf\<close> in
  order, each as its format and its operands (what the logger prints for them is the work
  of package \<open>fmt\<close>).
\<close>

record conn =
  header :: "(string \<times> string) list"
  status :: "nat option"
  sent :: "(string \<times> string) list"
  body :: string
  logs :: "(string \<times> operand list) list"


type_synonym handler = "conn \<Rightarrow> request \<Rightarrow> conn"
type_synonym argv = "string \<rightharpoonup> string"
type_synonym route_handler = "conn \<Rightarrow> request \<Rightarrow> argv \<Rightarrow> conn"

definition new_conn :: conn where
  \<open>new_conn = \<lparr>header = [], status = None, sent = [], body = [], logs = []\<rparr>\<close>

text \<open>\<open>w.WriteHeader(code)\<close>: the first call sends the status line and the headers set so
  far; a later call changes nothing.\<close>

definition WriteHeader :: "nat \<Rightarrow> conn \<Rightarrow> conn" where
  \<open>WriteHeader code w =
     (if status w = None then w\<lparr>status := Some code, sent := header w\<rparr> else w)\<close>

text \<open>\<open>w.Header().Set(k, v)\<close>.\<close>

definition Header_Set :: "string \<Rightarrow> string \<Rightarrow> conn \<Rightarrow> conn" where
  \<open>Header_Set k v w = w\<lparr>header := AList.update k v (header w)\<rparr>\<close>

text \<open>\<open>w.Write(s)\<close>: writes the status line with 200 first when none was written.\<close>

definition Write :: "string \<Rightarrow> conn \<Rightarrow> conn" where
  \<open>Write s w = (let w' = WriteHeader 200 w in w'\<lparr>body := body w' @ s\<rparr>)\<close>

text \<open>\<open>r.Header.Get(k)\<close>: the empty string when the header is absent.\<close>

definition Header_Get :: "request \<Rightarrow> string \<Rightarrow> string" where
  \<open>Header_Get r k = (case map_of (Header r) k of None \<Rightarrow> [] | Some v \<Rightarrow> v)\<close>

subsection \<open>Formatting\<close>

text \<open>
  \<open>fmt.Sprintf\<close> for the one verb the code uses on what it writes to a response,
  \<open>%s\<close>, on string operands. Every such call gives as many operands as the format has
  verbs.
\<close>

fun Sprintf :: "string \<Rightarrow> string list \<Rightarrow> string" where
  \<open>Sprintf [] as = []\<close>
| \<open>Sprintf (c # fs) as =
     (if c = CHR 0x25 \<and> take 1 fs = ''s'' \<and> as \<noteq> []
        then hd as @ Sprintf (drop 1 fs) (tl as)
      else c # Sprintf fs as)\<close>

text \<open>\<open>fmt.Fprintf(w, ...)\<close> and \<open>fmt.Fprintln(w, s)\<close>.\<close>

definition Fprintf :: "conn \<Rightarrow> string \<Rightarrow> string list \<Rightarrow> conn" where
  \<open>Fprintf w f as = Write (Sprintf f as) w\<close>

definition Fprintln :: "conn \<Rightarrow> string \<Rightarrow> conn" where
  \<open>Fprintln w s = Write (s @ ''\<newline>'') w\<close>

text \<open>\<open>log.Printf(f, as...)\<close>: the call is added to the log.\<close>

definition log_Printf :: "string \<Rightarrow> operand list \<Rightarrow> conn \<Rightarrow> conn" where
  \<open>log_Printf f as w = w\<lparr>logs := logs w @ [(f, as)]\<rparr>\<close>

section \<open>Package middleware: the logger and the bad-request handler\<close>

text \<open>
  The call both handlers make for a request:
  \<open>log.Printf("%s Accept-Encoding: %s, %4s %s", r.RemoteAddr,
  r.Header.Get("Accept-Encoding"), r.Method, r.URL)\<close>.
\<close>

definition log_request :: "request \<Rightarrow> conn \<Rightarrow> conn" where
  \<open>log_request r w =
     log_Printf ''%s Accept-Encoding: %s, %4s %s''
       [Str (RemoteAddr r), Str (Header_Get r ''Accept-Encoding''), Str (Method r), Url r] w\<close>

record Logger =
  "next" :: handler

definition Logger_SetNext :: "Logger \<Rightarrow> handler \<Rightarrow> Logger" where
  \<open>Logger_SetNext l h = l\<lparr>next := h\<rparr>\<close>

definition Logger_ServeHTTP :: "Logger \<Rightarrow> handler" where
  \<open>Logger_ServeHTTP l w r = next l (log_request r w) r\<close>

record BadRequest =
  Verbose :: bool

definition BadRequest_SetNext :: "BadRequest \<Rightarrow> handler \<Rightarrow> BadRequest" where
  \<open>BadRequest_SetNext b h = b\<close>

definition capability_body :: string where
  \<open>capability_body = ''{"GET":{},"PUT":{},"POST":{}}''\<close>

definition BadRequest_ServeHTTP :: "BadRequest \<Rightarrow> handler" where
  \<open>BadRequest_ServeHTTP b w r =
     (if Method r = ''OPTIONS'' then
        Fprintf
          (Header_Set ''Access-Control-Allow-Methods'' ''GET, POST, DELETE, PUT''
            (Header_Set ''Access-Control-Allow-Headers''
                ''authorization,content-type,hawkular-tenant''
              (Header_Set ''Access-Control-Allow-Origin'' ''*''
                (Header_Set ''Content-Type'' ''application/json''
                  (WriteHeader 200 w)))))
          capability_body []
      else
        Fprintf
          (WriteHeader 404
            (log_request r (log_Printf ''Page not found - 404:\<newline>'' [] w)))
          ''Page not found - 404\<newline>'' [])\<close>

section \<open>Package api: the status handler\<close>

definition VER :: string where
  \<open>VER = ''0.22.1''\<close>

definition defaultAPI :: string where
  \<open>defaultAPI = ''0.21.0''\<close>

text \<open>\<open>GetStatus\<close> reads the package variable \<open>BackendName\<close>: its first argument.\<close>

definition GetStatus :: "string \<Rightarrow> route_handler" where
  \<open>GetStatus BackendName w r argv =
     (let resTemplate = ''{"MetricsService":"STARTED","Implementation-Version":"%s","MohawkVersion":"%s","MohawkBackend":"%s"}'';
          res = Sprintf resTemplate [defaultAPI, VER, BackendName]
      in Fprintln (WriteHeader 200 w) res)\<close>

text \<open>
  An earlier \<open>main.go\<close> among the sources has the same function with its own version
  constant.
\<close>

definition main_VER :: string where
  \<open>main_VER = ''0.10.2''\<close>

definition main_GetStatus :: "string \<Rightarrow> route_handler" where
  \<open>main_GetStatus BackendName w r argv =
     (let resTemplate = ''{"MetricsService":"STARTED","Implementation-Version":"%s","MohawkVersion":"%s","MohawkBackend":"%s"}'';
          res = Sprintf resTemplate [defaultAPI, main_VER, BackendName]
      in Fprintln (WriteHeader 200 w) res)\<close>

section \<open>Package router\<close>

text \<open>
  Package \<open>router\<close> is not among the sources; \<open>Serve\<close> only calls it. The names
  of the handler functions a route can carry are a datatype, so that two routes can be
  compared by the handler they name.
\<close>

datatype handler_name =
  h_GetStatus | h_GetTenants | h_GetMetrics | h_GetData | h_PostData | h_PostQuery
| h_PutMultiTags | h_PutTags | h_DeleteData | h_DeleteTags

record route =
  rmethod :: string
  rpath :: string
  rhandler :: handler_name

record Router =
  Prefix :: string
  Routes :: "route list"

text \<open>
  Modelled from the spec: \<open>Router.Add\<close> is missing from the sources. The spec (4.1):
  it registers a route, and fails if the same (method, pattern) is registered twice.
  \<open>None\<close> is that failure; routes are kept in registration order.
\<close>

definition Router_Add :: "string \<Rightarrow> string \<Rightarrow> handler_name \<Rightarrow> Router \<Rightarrow> Router option" where
  \<open>Router_Add m p h R =
     (if (m, p) \<in> set (map (\<lambda>rt. (rmethod rt, rpath rt)) (Routes R)) then None
      else Some (R\<lparr>Routes := Routes R @ [\<lparr>rmethod = m, rpath = p, rhandler = h\<rparr>]\<rparr>))\<close>

text \<open>A run of \<open>Add\<close> calls on one router, in order; it stops at the first failure.\<close>

fun Router_AddAll :: "Router \<Rightarrow> (string \<times> string \<times> handler_name) list \<Rightarrow> Router option" where
  \<open>Router_AddAll R [] = Some R\<close>
| \<open>Router_AddAll R ((m, p, h) # calls) =
     (case Router_Add m p h R of None \<Rightarrow> None | Some R' \<Rightarrow> Router_AddAll R' calls)\<close>

text \<open>\<open>strings.Split(s, sep)\<close> for a separator of one character.\<close>

fun split_on :: "char \<Rightarrow> string \<Rightarrow> string list" where
  \<open>split_on sep [] = [[]]\<close>
| \<open>split_on sep (c # cs) =
     (if c = sep then [] # split_on sep cs
      else (case split_on sep cs of [] \<Rightarrow> [[c]] | x # xs \<Rightarrow> (c # x) # xs))\<close>

fun strip_prefix :: "string \<Rightarrow> string \<Rightarrow> string option" where
  \<open>strip_prefix [] s = Some s\<close>
| \<open>strip_prefix (p # ps) [] = None\<close>
| \<open>strip_prefix (p # ps) (c # cs) = (if p = c then strip_prefix ps cs else None)\<close>

text \<open>
  Modelled from the spec: \<open>Router.Match\<close> is missing from the sources. The spec (4.1):
  matching strips the router's prefix; the rest of the path is tokenized on \<open>/\<close> and
  compared segment by segment with each pattern registered for the method; a pattern
  segment is a literal or \<open>:name\<close>, which takes any one segment and binds it to
  \<open>name\<close>; the first compatible pattern wins; a path that does not have the prefix, or
  that no pattern fits, is not found. The path is taken as already unescaped.
\<close>

fun match_segments :: "string list \<Rightarrow> string list \<Rightarrow> argv \<Rightarrow> argv option" where
  \<open>match_segments [] [] a = Some a\<close>
| \<open>match_segments (p # ps) (s # ss) a =
     (if take 1 p = '':'' then match_segments ps ss (a(drop 1 p \<mapsto> s))
      else if p = s then match_segments ps ss a
      else None)\<close>
| \<open>match_segments [] (s # ss) a = None\<close>
| \<open>match_segments (p # ps) [] a = None\<close>

fun find_route :: "route list \<Rightarrow> string \<Rightarrow> string list \<Rightarrow> (handler_name \<times> argv) option" where
  \<open>find_route [] m segs = None\<close>
| \<open>find_route (rt # rts) m segs =
     (if rmethod rt = m then
        (case match_segments (split_on CHR 0x2F (rpath rt)) segs Map.empty of
           Some a \<Rightarrow> Some (rhandler rt, a)
         | None \<Rightarrow> find_route rts m segs)
      else find_route rts m segs)\<close>

definition Router_Match :: "Router \<Rightarrow> string \<Rightarrow> string \<Rightarrow> (handler_name \<times> argv) option" where
  \<open>Router_Match R m path =
     (case strip_prefix (Prefix R) path of
        None \<Rightarrow> None
      | Some rest \<Rightarrow> find_route (Routes R) m (split_on CHR 0x2F rest))\<close>

text \<open>
  Modelled from the spec: \<open>router.Append(fallback, routers...)\<close> is missing from the
  sources. The spec (4.1): the routers are chained; each is tried in order, the first to
  report a match dispatches, and if none matches control passes to the fallback handler.
  \<open>H\<close> gives the function behind each handler name.
\<close>

fun router_Append :: "(handler_name \<Rightarrow> route_handler) \<Rightarrow> handler \<Rightarrow> Router list \<Rightarrow> handler" where
  \<open>router_Append H fallback [] w r = fallback w r\<close>
| \<open>router_Append H fallback (R # Rs) w r =
     (case Router_Match R (Method r) (Path r) of
        Some (h, a) \<Rightarrow> H h w r a
      | None \<Rightarrow> router_Append H fallback Rs w r)\<close>

text \<open>
  What the chain comes to for a method and a path: the handler name and the parameters
  of the first router that reports a match, \<open>None\<close> when the request goes to the
  fallback.
\<close>

fun routers_Match :: "Router list \<Rightarrow> string \<Rightarrow> string \<Rightarrow> (handler_name \<times> argv) option" where
  \<open>routers_Match [] m path = None\<close>
| \<open>routers_Match (R # Rs) m path =
     (case Router_Match R m path of
        Some found \<Rightarrow> Some found
      | None \<Rightarrow> routers_Match Rs m path)\<close>

section \<open>Package middleware: decorators\<close>

type_synonym Decorator = "handler \<Rightarrow> handler"

text \<open>
  Modelled from the spec: \<open>middleware.Append(core, decorators...)\<close> is missing from the
  sources. The spec (4.2): decorators are applied outer to inner in the order supplied;
  the first decorator of the list is the outermost.
\<close>

definition middleware_Append :: "handler \<Rightarrow> Decorator list \<Rightarrow> handler" where
  \<open>middleware_Append core ds = foldr (\<lambda>d h. d h) ds core\<close>

text \<open>
  Modelled from the spec: \<open>LoggingDecorator\<close> is missing from the sources. The spec
  (4.2): it records method, path, client address and headers, then forwards, and never
  short-circuits; that is the \<open>Logger\<close> of the sources with its successor set.
\<close>

definition LoggingDecorator :: Decorator where
  \<open>LoggingDecorator nxt = Logger_ServeHTTP \<lparr>next = nxt\<rparr>\<close>

text \<open>
  Modelled from the spec: \<open>DefaultHeadersDecorator\<close> is missing from the sources. The
  spec (4.2): it sets standard response headers before forwarding and does not alter
  the status. Which headers is not said: they are the argument \<open>hs\<close>.
\<close>

definition DefaultHeadersDecorator :: "(string \<times> string) list \<Rightarrow> Decorator" where
  \<open>DefaultHeadersDecorator hs nxt w r = nxt (fold (\<lambda>(k, v). Header_Set k v) hs w) r\<close>

text \<open>
  \<open>regexp.MatchString\<close> for the patterns the code uses: literal characters, with an
  optional \<open>^\<close> in front and an optional \<open>$\<close> at the end.
\<close>

fun contains :: "string \<Rightarrow> string \<Rightarrow> bool" where
  \<open>contains lit [] = (lit = [])\<close>
| \<open>contains lit (c # cs) = (take (length lit) (c # cs) = lit \<or> contains lit cs)\<close>

definition regexp_MatchString :: "string \<Rightarrow> string \<Rightarrow> bool" where
  \<open>regexp_MatchString pat s =
     (let front = (take 1 pat = ''^'');
          p1 = (if front then drop 1 pat else pat);
          back = (p1 \<noteq> [] \<and> last p1 = CHR 0x24);
          lit = (if back then butlast p1 else p1)
      in if front \<and> back then s = lit
         else if front then take (length lit) s = lit
         else if back then drop (length s - length lit) s = lit
         else contains lit s)\<close>

text \<open>
  Modelled from the spec: \<open>AuthDecorator\<close> is missing from the sources. The spec (4.2,
  7, 8): it short-circuits with an unauthorized response, status 401, unless the request
  has a valid token, except for paths that match the exemption pattern, a regular
  expression matched against the request path. How a request carries its token is not
  said: \<open>valid token r\<close> is the check that \<open>r\<close> carries the configured token. The
  body of the unauthorized response is not said either: the model writes the status only.
\<close>

definition AuthDecorator :: "(string \<Rightarrow> request \<Rightarrow> bool) \<Rightarrow> string \<Rightarrow> string \<Rightarrow> Decorator" where
  \<open>AuthDecorator valid token pat nxt w r =
     (if regexp_MatchString pat (Path r) \<or> valid token r then nxt w r
      else WriteHeader 401 w)\<close>

section \<open>The storage contract\<close>

text \<open>
  Modelled from the spec: the storage backends are missing from the sources. The spec (3,
  4.3): a metric has a sequence of data points (timestamp, value) ordered by timestamp; a
  duplicate timestamp overwrites the prior value; \<open>Write\<close> appends or overwrites the
  points it is given, one after the other, and creates the metric if absent; a raw
  \<open>Query\<close> returns the points of the range from \<open>start\<close> (included) to \<open>end\<close>
  (excluded), ordered by timestamp; an unknown metric is a not-found error. Timestamps are
  milliseconds, an \<open>int\<close>; the store is a map from (tenant, metric) to the points.
\<close>

datatype storage_error = not_found | invalid_argument | unavailable | internal

type_synonym 'v points = "(int \<times> 'v) list"
type_synonym 'v store = "string \<times> string \<rightharpoonup> 'v points"

fun put_point :: "int \<times> 'v \<Rightarrow> 'v points \<Rightarrow> 'v points" where
  \<open>put_point p [] = [p]\<close>
| \<open>put_point p (q # qs) =
     (if fst p < fst q then p # q # qs
      else if fst p = fst q then p # qs
      else q # put_point p qs)\<close>

definition storage_Write :: "string \<Rightarrow> string \<Rightarrow> 'v points \<Rightarrow> 'v store \<Rightarrow> 'v store" where
  \<open>storage_Write tenant metric pts S =
     S((tenant, metric) \<mapsto>
        fold put_point pts (case S (tenant, metric) of None \<Rightarrow> [] | Some qs \<Rightarrow> qs))\<close>

definition storage_Query_raw ::
    "string \<Rightarrow> string \<Rightarrow> int \<Rightarrow> int \<Rightarrow> 'v store \<Rightarrow> storage_error + 'v points" where
  \<open>storage_Query_raw tenant metric start end S =
     (case S (tenant, metric) of
        None \<Rightarrow> Inl not_found
      | Some qs \<Rightarrow> Inr (filter (\<lambda>q. start \<le> fst q \<and> fst q < end) qs))\<close>

text \<open>A sequence of \<open>Write\<close> calls, each (tenant, metric, points), on a store.\<close>

fun storage_Writes :: "(string \<times> string \<times> 'v points) list \<Rightarrow> 'v store \<Rightarrow> 'v store" where
  \<open>storage_Writes [] S = S\<close>
| \<open>storage_Writes ((tenant, metric, pts) # calls) S =
     storage_Writes calls (storage_Write tenant metric pts S)\<close>

text \<open>The points the calls write to one metric, in the order they are written.\<close>

fun written_to :: "string \<Rightarrow> string \<Rightarrow> (string \<times> string \<times> 'v points) list \<Rightarrow> 'v points" where
  \<open>written_to tenant metric [] = []\<close>
| \<open>written_to tenant metric ((tn, m, pts) # calls) =
     (if tn = tenant \<and> m = metric then pts else []) @ written_to tenant metric calls\<close>

section \<open>The alert engine\<close>

text \<open>
  Modelled from the spec: package \<open>alerts\<close> is missing from the sources; \<open>Serve\<close>
  only builds the runner and calls its \<open>Init\<close>. The spec (3, 4.4): a rule has a name, a
  target metric, a threshold, a comparison operator, an evaluation interval and a state,
  OK or FIRING. At each tick the aggregate from the query is compared with the threshold;
  if the comparison holds and the state is OK, the rule goes to FIRING and a fire
  notification is emitted; if it does not hold and the state is FIRING, the rule goes to
  OK and a resolve notification is emitted; otherwise nothing happens. A failed query,
  here \<open>None\<close>, is no transition. Values are real numbers.
\<close>

datatype alert_state = OK | FIRING

datatype notification = Fire | Resolve

record Alert =
  alertName :: string
  alertMetric :: string
  threshold :: real
  operator :: "real \<Rightarrow> real \<Rightarrow> bool"
  interval :: nat
  state :: alert_state

definition alert_tick :: "Alert \<Rightarrow> real option \<Rightarrow> Alert \<times> notification list" where
  \<open>alert_tick a obs =
     (case obs of
        None \<Rightarrow> (a, [])
      | Some x \<Rightarrow>
          if operator a x (threshold a) \<and> state a = OK then (a\<lparr>state := FIRING\<rparr>, [Fire])
          else if \<not> operator a x (threshold a) \<and> state a = FIRING
            then (a\<lparr>state := OK\<rparr>, [Resolve])
          else (a, []))\<close>

text \<open>The notifications of successive ticks, one list per tick.\<close>

fun alert_run :: "Alert \<Rightarrow> real option list \<Rightarrow> notification list list" where
  \<open>alert_run a [] = []\<close>
| \<open>alert_run a (obs # rest) = snd (alert_tick a obs) # alert_run (fst (alert_tick a obs)) rest\<close>

datatype backend = sqlite_Backend | memory_Backend | mongo_Backend | example_Backend

record Alerts =
  Backend :: backend
  AlertsVerbose :: bool
  AlertList :: "Alert list"

section \<open>Package api: Serve\<close>

text \<open>The values \<open>Serve\<close> reads from the configuration, named as its local variables.\<close>

record config =
  backendQuery :: string
  optionsQuery :: string
  verbose :: bool
  media :: string
  tls :: bool
  gzip :: bool
  token :: string
  port :: int
  cert :: string
  key :: string
  configAlerts :: bool
  alertsKey :: "Alert list"

text \<open>
  What \<open>Serve\<close> uses and the sources do not hold: \<open>url.ParseQuery\<close> (an error or the
  options), the \<open>Name\<close> of each backend, the methods of \<open>Handler\<close> (given the verbose
  flag, the backend and the options it was opened with), the decorators for static files
  and gzip, the headers of the default-headers decorator, and the token check of the
  authentication decorator.
\<close>

record 'o collab =
  ParseQuery :: "string \<Rightarrow> string + 'o"
  Name :: "backend \<Rightarrow> string"
  HandlerMethods :: "bool \<Rightarrow> backend \<Rightarrow> 'o \<Rightarrow> handler_name \<Rightarrow> route_handler"
  FileServeDecorator :: "string \<Rightarrow> Decorator"
  GzipDecodeDecorator :: Decorator
  GzipEncodeDecorator :: Decorator
  defaultHeaders :: "(string \<times> string) list"
  validToken :: "string \<Rightarrow> request \<Rightarrow> bool"

text \<open>The \<open>switch\<close> on the storage name; \<open>None\<close> is its \<open>default\<close> branch.\<close>

definition select_backend :: "string \<Rightarrow> backend option" where
  \<open>select_backend q =
     (if q = ''sqlite'' then Some sqlite_Backend
      else if q = ''memory'' then Some memory_Backend
      else if q = ''mongo'' then Some mongo_Backend
      else if q = ''example'' then Some example_Backend
      else None)\<close>

text \<open>The calls of \<open>Add\<close> on each router, in the order of the code: method, pattern,
  handler.\<close>

definition rRoot_calls :: "(string \<times> string \<times> handler_name) list" where
  \<open>rRoot_calls =
     [(''GET'', ''status'', h_GetStatus),
      (''GET'', ''tenants'', h_GetTenants),
      (''GET'', ''metrics'', h_GetMetrics)]\<close>

definition rGauges_calls :: "(string \<times> string \<times> handler_name) list" where
  \<open>rGauges_calls =
     [(''GET'', '':id/raw'', h_GetData),
      (''GET'', '':id/stats'', h_GetData),
      (''POST'', ''raw'', h_PostData),
      (''POST'', ''raw/query'', h_PostQuery),
      (''PUT'', ''tags'', h_PutMultiTags),
      (''PUT'', '':id/tags'', h_PutTags),
      (''DELETE'', '':id/raw'', h_DeleteData),
      (''DELETE'', '':id/tags/:tags'', h_DeleteTags),
      (''GET'', '':id/data'', h_GetData),
      (''POST'', ''data'', h_PostData),
      (''POST'', ''stats/query'', h_PostQuery)]\<close>

definition rCounters_calls :: "(string \<times> string \<times> handler_name) list" where
  \<open>rCounters_calls =
     [(''GET'', '':id/raw'', h_GetData),
      (''GET'', '':id/stats'', h_GetData),
      (''POST'', ''raw'', h_PostData),
      (''POST'', ''raw/query'', h_PostQuery),
      (''PUT'', '':id/tags'', h_PutTags),
      (''GET'', '':id/data'', h_GetData),
      (''POST'', ''data'', h_PostData),
      (''POST'', ''stats/query'', h_PostQuery)]\<close>

definition rAvailability_calls :: "(string \<times> string \<times> handler_name) list" where
  \<open>rAvailability_calls =
     [(''GET'', '':id/raw'', h_GetData),
      (''GET'', '':id/stats'', h_GetData)]\<close>

text \<open>The routers as the code creates them, before any \<open>Add\<close>.\<close>

definition rRoot_literal :: Router where
  \<open>rRoot_literal = \<lparr>Prefix = ''/hawkular/metrics/'', Routes = []\<rparr>\<close>

definition rGauges_literal :: Router where
  \<open>rGauges_literal = \<lparr>Prefix = ''/hawkular/metrics/gauges/'', Routes = []\<rparr>\<close>

definition rCounters_literal :: Router where
  \<open>rCounters_literal = \<lparr>Prefix = ''/hawkular/metrics/counters/'', Routes = []\<rparr>\<close>

definition rAvailability_literal :: Router where
  \<open>rAvailability_literal = \<lparr>Prefix = ''/hawkular/metrics/availability/'', Routes = []\<rparr>\<close>

text \<open>The routers after their \<open>Add\<close> calls; \<open>None\<close> when a registration failed.\<close>

definition rRoot :: "Router option" where
  \<open>rRoot = Router_AddAll rRoot_literal rRoot_calls\<close>

definition rGauges :: "Router option" where
  \<open>rGauges = Router_AddAll rGauges_literal rGauges_calls\<close>

definition rCounters :: "Router option" where
  \<open>rCounters = Router_AddAll rCounters_literal rCounters_calls\<close>

definition rAvailability :: "Router option" where
  \<open>rAvailability = Router_AddAll rAvailability_literal rAvailability_calls\<close>

text \<open>The list \<open>routers\<close>; \<open>None\<close> when a registration failed.\<close>

definition Serve_routers :: "Router list option" where
  \<open>Serve_routers =
     (case (rGauges, rCounters, rAvailability, rRoot) of
        (Some g, Some c, Some a, Some rt) \<Rightarrow> Some [g, c, a, rt]
      | _ \<Rightarrow> None)\<close>

text \<open>The same list as a plain list, empty when a registration failed.\<close>

definition router_list :: "Router list" where
  \<open>router_list = (case Serve_routers of None \<Rightarrow> [] | Some rs \<Rightarrow> rs)\<close>

text \<open>
  The function behind each handler name: \<open>GetStatus\<close> of this package, with the
  \<open>BackendName\<close> that \<open>Serve\<close> has set, and the methods of \<open>h\<close>.
\<close>

definition Serve_handlers :: "'o collab \<Rightarrow> config \<Rightarrow> backend \<Rightarrow> 'o \<Rightarrow> handler_name \<Rightarrow> route_handler" where
  \<open>Serve_handlers c cfg db opts hn =
     (if hn = h_GetStatus then GetStatus (Name c db)
      else HandlerMethods c (verbose cfg) db opts hn)\<close>

text \<open>
  \<open>fallback\<close>: the static decorator around the bad-request handler. The constructor
  \<open>BadRequestHandler\<close> is missing from the sources; the handler is the \<open>BadRequest\<close>
  of package middleware.
\<close>

definition Serve_fallback :: "'o collab \<Rightarrow> config \<Rightarrow> handler" where
  \<open>Serve_fallback c cfg =
     FileServeDecorator c (media cfg) (BadRequest_ServeHTTP \<lparr>Verbose = False\<rparr>)\<close>

definition Serve_core :: "'o collab \<Rightarrow> config \<Rightarrow> backend \<Rightarrow> 'o \<Rightarrow> Router list \<Rightarrow> handler" where
  \<open>Serve_core c cfg db opts routers =
     router_Append (Serve_handlers c cfg db opts) (Serve_fallback c cfg) routers\<close>

definition Serve_decorators :: "'o collab \<Rightarrow> config \<Rightarrow> Decorator list" where
  \<open>Serve_decorators c cfg =
     [LoggingDecorator, DefaultHeadersDecorator (defaultHeaders c)]
     @ (if token cfg \<noteq> [] then
          [AuthDecorator (validToken c) (token cfg) ''^/hawkular/metrics/status$'']
        else [])
     @ (if gzip cfg then [GzipDecodeDecorator c, GzipEncodeDecorator c] else [])\<close>

definition Serve_handler :: "'o collab \<Rightarrow> config \<Rightarrow> handler \<Rightarrow> handler" where
  \<open>Serve_handler c cfg core = middleware_Append core (Serve_decorators c cfg)\<close>

text \<open>\<open>%d\<close> of an \<open>int\<close>.\<close>

function show_nat :: "nat \<Rightarrow> string" where
  \<open>show_nat n =
     (if n < 10 then [char_of (48 + n)]
      else show_nat (n div 10) @ [char_of (48 + n mod 10)])\<close>
  by pat_completeness auto
termination
  by (relation "measure id") auto

definition show_int :: "int \<Rightarrow> string" where
  \<open>show_int i = (if i < 0 then CHR 0x2D # show_nat (nat (- i)) else show_nat (nat i))\<close>

text \<open>
  \<open>log.Fatal\<close> prints its operands, strings here, one after the other, and exits with
  status 1. A log entry ends with a newline.
\<close>

definition log_entry :: "string \<Rightarrow> string" where
  \<open>log_entry s = (if s \<noteq> [] \<and> last s = CHR 0x0A then s else s @ ''\<newline>'')\<close>

text \<open>
  What \<open>Serve\<close> comes to: the process exits with a status after the log entries given,
  or a registration on a router fails, or the server is handed to \<open>ListenAndServe\<close> (to
  \<open>ListenAndServeTLS\<close> with the certificate and the key when \<open>srvTLS\<close> is set).
\<close>

record started =
  Addr :: string
  srvHandler :: handler
  srvTLS :: "(string \<times> string) option"
  BackendName :: string
  alertsRunner :: "Alerts option"
  startLog :: "string list"

datatype outcome = Exit nat "string list" | RegistrationFailed | ListenAndServe started

definition Serve :: "'o collab \<Rightarrow> config \<Rightarrow> outcome" where
  \<open>Serve c cfg =
     (case select_backend (backendQuery cfg) of
        None \<Rightarrow> Exit 1 [log_entry (''Can't find storage:'' @ backendQuery cfg)]
      | Some db \<Rightarrow>
         (case ParseQuery c (optionsQuery cfg) of
            Inl err \<Rightarrow> Exit 1 [log_entry (''Can't parse opetions:'' @ optionsQuery cfg)]
          | Inr opts \<Rightarrow>
             (case Serve_routers of
                None \<Rightarrow> RegistrationFailed
              | Some routers \<Rightarrow>
                 (let addr = ''0.0.0.0:'' @ show_int (port cfg) in
                  ListenAndServe
                    \<lparr>Addr = addr,
                     srvHandler = Serve_handler c cfg (Serve_core c cfg db opts routers),
                     srvTLS = (if tls cfg then Some (cert cfg, key cfg) else None),
                     BackendName = Name c db,
                     alertsRunner =
                       (if configAlerts cfg then
                          Some \<lparr>Backend = db, AlertsVerbose = verbose cfg,
                                AlertList = alertsKey cfg\<rparr>
                        else None),
                     startLog =
                       [log_entry ((if tls cfg then ''Start server, listen on https://''
                                    else ''Start server, listen on http://'') @ addr)]\<rparr>))))\<close>

section \<open>The REST table of the spec\<close>

text \<open>
  The table of section 6 of the spec, after the spec's words: a method and a path under
  the prefix \<open>/hawkular/metrics/\<close>, a row for several metric kinds written out once
  per kind. Its last two rows (\<open>OPTIONS\<close> on any path, anything unmatched) name no route.
\<close>

definition section6_table :: "(string \<times> string) list" where
  \<open>section6_table =
     [(''GET'', ''/hawkular/metrics/status''),
      (''GET'', ''/hawkular/metrics/tenants''),
      (''GET'', ''/hawkular/metrics/metrics''),
      (''GET'', ''/hawkular/metrics/gauges/:id/raw''),
      (''GET'', ''/hawkular/metrics/counters/:id/raw''),
      (''GET'', ''/hawkular/metrics/availability/:id/raw''),
      (''GET'', ''/hawkular/metrics/gauges/:id/stats''),
      (''GET'', ''/hawkular/metrics/counters/:id/stats''),
      (''GET'', ''/hawkular/metrics/availability/:id/stats''),
      (''POST'', ''/hawkular/metrics/gauges/raw''),
      (''POST'', ''/hawkular/metrics/counters/raw''),
      (''POST'', ''/hawkular/metrics/gauges/raw/query''),
      (''POST'', ''/hawkular/metrics/counters/raw/query''),
      (''PUT'', ''/hawkular/metrics/gauges/:id/tags''),
      (''PUT'', ''/hawkular/metrics/counters/:id/tags''),
      (''PUT'', ''/hawkular/metrics/gauges/tags''),
      (''DELETE'', ''/hawkular/metrics/gauges/:id/raw''),
      (''DELETE'', ''/hawkular/metrics/gauges/:id/tags/:tags'')]\<close>

text \<open>The routes of a list of routers, each as its method and its path with the prefix.\<close>

definition registered :: "Router list \<Rightarrow> (string \<times> string) list" where
  \<open>registered routers =
     concat (map (\<lambda>R. map (\<lambda>rt. (rmethod rt, Prefix R @ rpath rt)) (Routes R)) routers)\<close>

text \<open>
  The route set of the server: what \<open>Serve\<close> registers, each call of \<open>Add\<close> as its
  method and its pattern after the prefix of its router.
\<close>

definition routes_of :: "Router \<Rightarrow> (string \<times> string \<times> handler_name) list \<Rightarrow> (string \<times> string) list" where
  \<open>routes_of R calls = map (\<lambda>(m, p, h). (m, Prefix R @ p)) calls\<close>

definition Serve_registered :: "(string \<times> string) list" where
  \<open>Serve_registered =
     routes_of rGauges_literal rGauges_calls @ routes_of rCounters_literal rCounters_calls
     @ routes_of rAvailability_literal rAvailability_calls @ routes_of rRoot_literal rRoot_calls\<close>

text \<open>The deprecated routes of the code, which the table does not have.\<close>

definition deprecated_routes :: "(string \<times> string) list" where
  \<open>deprecated_routes =
     [(''GET'', ''/hawkular/metrics/gauges/:id/data''),
      (''POST'', ''/hawkular/metrics/gauges/data''),
      (''POST'', ''/hawkular/metrics/gauges/stats/query''),
      (''GET'', ''/hawkular/metrics/counters/:id/data''),
      (''POST'', ''/hawkular/metrics/counters/data''),
      (''POST'', ''/hawkular/metrics/counters/stats/query'')]\<close>

section \<open>A concrete instance\<close>

text \<open>
  One choice of what the sources leave open, on which the definitions can be evaluated:
  a query parser that rejects a percent sign, handler methods that answer with their own
  name, decorators for files and gzip that only forward, a token carried in the
  \<open>Authorization\<close> header, and an alert rule with threshold 90 and operator \<open>>\<close>.
\<close>

definition demo_collab :: "string collab" where
  \<open>demo_collab =
     \<lparr>ParseQuery = (\<lambda>s. if CHR 0x25 \<in> set s then Inl ''invalid URL escape'' else Inr s),
      Name = (\<lambda>db. if db = sqlite_Backend then ''Backend-Sqlite''
                    else if db = memory_Backend then ''Backend-Memory''
                    else if db = mongo_Backend then ''Backend-Mongo''
                    else ''Backend-Example''),
      HandlerMethods = (\<lambda>v db opts hn w r a.
         Fprintln w (if hn = h_GetData then ''GetData'' else if hn = h_PostData then ''PostData''
                     else if hn = h_PostQuery then ''PostQuery'' else ''other'')),
      FileServeDecorator = (\<lambda>root nxt. nxt),
      GzipDecodeDecorator = (\<lambda>nxt. nxt),
      GzipEncodeDecorator = (\<lambda>nxt. nxt),
      defaultHeaders = [(''Content-Type'', ''application/json'')],
      validToken = (\<lambda>tok r. map_of (Header r) ''Authorization'' = Some (''Bearer '' @ tok))\<rparr>\<close>

definition demo_config :: "string \<Rightarrow> string \<Rightarrow> string \<Rightarrow> config" where
  \<open>demo_config st opt tok =
     \<lparr>backendQuery = st, optionsQuery = opt, verbose = False, media = ''./media'',
      tls = False, gzip = False, token = tok, port = 8080, cert = ''server.pem'',
      key = ''server.key'', configAlerts = False, alertsKey = []\<rparr>\<close>

definition demo_alert :: Alert where
  \<open>demo_alert =
     \<lparr>alertName = ''cpu high'', alertMetric = ''cpu'', threshold = 90,
      operator = (\<lambda>x t. t < x), interval = 5, state = OK\<rparr>\<close>

definition demo_request :: "string \<Rightarrow> string \<Rightarrow> request" where
  \<open>demo_request m p =
     \<lparr>Method = m, Path = p, RawQuery = [], RemoteAddr = ''127.0.0.1:4000'', Header = []\<rparr>\<close>

section \<open>Properties\<close>

subsection \<open>Helper facts\<close>

lemma Sprintf_plain: \<open>CHR 0x25 \<notin> set f \<Longrightarrow> Sprintf f as = f\<close>
  by (induction f) auto

lemma rRoot_eq:
  \<open>rRoot = Some \<lparr>Prefix = ''/hawkular/metrics/'',
     Routes = map (\<lambda>(m, p, h). \<lparr>rmethod = m, rpath = p, rhandler = h\<rparr>) rRoot_calls\<rparr>\<close>
  by (simp add: rRoot_def rRoot_literal_def rRoot_calls_def Router_Add_def)

lemma rGauges_eq:
  \<open>rGauges = Some \<lparr>Prefix = ''/hawkular/metrics/gauges/'',
     Routes = map (\<lambda>(m, p, h). \<lparr>rmethod = m, rpath = p, rhandler = h\<rparr>) rGauges_calls\<rparr>\<close>
  by (simp add: rGauges_def rGauges_literal_def rGauges_calls_def Router_Add_def)

lemma rCounters_eq:
  \<open>rCounters = Some \<lparr>Prefix = ''/hawkular/metrics/counters/'',
     Routes = map (\<lambda>(m, p, h). \<lparr>rmethod = m, rpath = p, rhandler = h\<rparr>) rCounters_calls\<rparr>\<close>
  by (simp add: rCounters_def rCounters_literal_def rCounters_calls_def Router_Add_def)

lemma rAvailability_eq:
  \<open>rAvailability = Some \<lparr>Prefix = ''/hawkular/metrics/availability/'',
     Routes = map (\<lambda>(m, p, h). \<lparr>rmethod = m, rpath = p, rhandler = h\<rparr>) rAvailability_calls\<rparr>\<close>
  by (simp add: rAvailability_def rAvailability_literal_def rAvailability_calls_def Router_Add_def)

lemma Serve_routers_ok: \<open>\<exists>rs. Serve_routers = Some rs\<close>
  by (simp add: Serve_routers_def rRoot_eq rGauges_eq rCounters_eq rAvailability_eq)

lemma router_list_eq:
  \<open>router_list =
     [\<lparr>Prefix = ''/hawkular/metrics/gauges/'',
        Routes = map (\<lambda>(m, p, h). \<lparr>rmethod = m, rpath = p, rhandler = h\<rparr>) rGauges_calls\<rparr>,
      \<lparr>Prefix = ''/hawkular/metrics/counters/'',
        Routes = map (\<lambda>(m, p, h). \<lparr>rmethod = m, rpath = p, rhandler = h\<rparr>) rCounters_calls\<rparr>,
      \<lparr>Prefix = ''/hawkular/metrics/availability/'',
        Routes = map (\<lambda>(m, p, h). \<lparr>rmethod = m, rpath = p, rhandler = h\<rparr>) rAvailability_calls\<rparr>,
      \<lparr>Prefix = ''/hawkular/metrics/'',
        Routes = map (\<lambda>(m, p, h). \<lparr>rmethod = m, rpath = p, rhandler = h\<rparr>) rRoot_calls\<rparr>]\<close>
  by (simp add: router_list_def Serve_routers_def rRoot_eq rGauges_eq rCounters_eq rAvailability_eq)

lemma Serve_routers_eq: \<open>Serve_routers = Some router_list\<close>
  using Serve_routers_ok by (auto simp add: router_list_def split: option.splits)

lemma Serve_registered_eq:
  \<open>Serve_registered =
     [(''GET'', ''/hawkular/metrics/gauges/:id/raw''),
      (''GET'', ''/hawkular/metrics/gauges/:id/stats''),
      (''POST'', ''/hawkular/metrics/gauges/raw''),
      (''POST'', ''/hawkular/metrics/gauges/raw/query''),
      (''PUT'', ''/hawkular/metrics/gauges/tags''),
      (''PUT'', ''/hawkular/metrics/gauges/:id/tags''),
      (''DELETE'', ''/hawkular/metrics/gauges/:id/raw''),
      (''DELETE'', ''/hawkular/metrics/gauges/:id/tags/:tags''),
      (''GET'', ''/hawkular/metrics/gauges/:id/data''),
      (''POST'', ''/hawkular/metrics/gauges/data''),
      (''POST'', ''/hawkular/metrics/gauges/stats/query''),
      (''GET'', ''/hawkular/metrics/counters/:id/raw''),
      (''GET'', ''/hawkular/metrics/counters/:id/stats''),
      (''POST'', ''/hawkular/metrics/counters/raw''),
      (''POST'', ''/hawkular/metrics/counters/raw/query''),
      (''PUT'', ''/hawkular/metrics/counters/:id/tags''),
      (''GET'', ''/hawkular/metrics/counters/:id/data''),
      (''POST'', ''/hawkular/metrics/counters/data''),
      (''POST'', ''/hawkular/metrics/counters/stats/query''),
      (''GET'', ''/hawkular/metrics/availability/:id/raw''),
      (''GET'', ''/hawkular/metrics/availability/:id/stats''),
      (''GET'', ''/hawkular/metrics/status''),
      (''GET'', ''/hawkular/metrics/tenants''),
      (''GET'', ''/hawkular/metrics/metrics'')]\<close>
  by (simp add: Serve_registered_def routes_of_def rGauges_literal_def rCounters_literal_def
      rAvailability_literal_def rRoot_literal_def rGauges_calls_def rCounters_calls_def
      rAvailability_calls_def rRoot_calls_def)

text \<open>The routers built through \<open>Add\<close> hold the routes of the calls, in their order.\<close>

lemma registered_router_list: \<open>registered router_list = Serve_registered\<close>
  by (simp add: Serve_registered_eq registered_def router_list_eq rGauges_calls_def
      rCounters_calls_def rAvailability_calls_def rRoot_calls_def)

lemma GetStatus_always:
  \<open>status (GetStatus n w r a) = Some (case status w of None \<Rightarrow> 200 | Some code \<Rightarrow> code)
   \<and> body (GetStatus n w r a) =
       body w @ ''{"MetricsService":"STARTED","Implementation-Version":"0.21.0","MohawkVersion":"0.22.1","MohawkBackend":"''
         @ n @ ''"}\<newline>''\<close>
  by (auto simp add: GetStatus_def Fprintln_def Write_def WriteHeader_def Let_def VER_def
      defaultAPI_def Sprintf_plain)

lemma main_GetStatus_always:
  \<open>status (main_GetStatus n w r a) = Some (case status w of None \<Rightarrow> 200 | Some code \<Rightarrow> code)
   \<and> body (main_GetStatus n w r a) =
       body w @ ''{"MetricsService":"STARTED","Implementation-Version":"0.21.0","MohawkVersion":"0.10.2","MohawkBackend":"''
         @ n @ ''"}\<newline>''\<close>
  by (auto simp add: main_GetStatus_def Fprintln_def Write_def WriteHeader_def Let_def main_VER_def
      defaultAPI_def Sprintf_plain)

lemma Serve_started:
  assumes \<open>select_backend (backendQuery cfg) = Some db\<close>
    and \<open>ParseQuery c (optionsQuery cfg) = Inr opts\<close>
  shows \<open>\<exists>s. Serve c cfg = ListenAndServe s \<and> BackendName s = Name c db
           \<and> srvHandler s = Serve_handler c cfg (Serve_core c cfg db opts router_list)\<close>
  unfolding Serve_def Serve_routers_eq using assms by (simp add: Let_def)

lemma split_on_none: \<open>sep \<notin> set a \<Longrightarrow> split_on sep a = [a]\<close>
  by (induction a) auto


lemma router_Append_routers_Match:
  \<open>router_Append H fb rs w r =
     (case routers_Match rs (Method r) (Path r) of
        Some (h, a) \<Rightarrow> H h w r a
      | None \<Rightarrow> fb w r)\<close>
  by (induction rs) (auto split: option.splits)



lemma status_dispatch:
  \<open>routers_Match router_list ''GET'' ''/hawkular/metrics/status'' = Some (h_GetStatus, Map.empty)\<close>
  by (simp add: router_list_eq Router_Match_def rGauges_calls_def rCounters_calls_def
      rAvailability_calls_def rRoot_calls_def)

lemma status_fold_Header_Set: \<open>status (fold (\<lambda>(k, v). Header_Set k v) hs w) = status w\<close>
  by (induction hs arbitrary: w) (auto simp add: Header_Set_def)

lemma status_log_request: \<open>status (log_request r w) = status w\<close>
  by (simp add: log_request_def log_Printf_def)

lemma body_fold_Header_Set: \<open>body (fold (\<lambda>(k, v). Header_Set k v) hs w) = body w\<close>
  by (induction hs arbitrary: w) (auto simp add: Header_Set_def)

lemma body_log_request: \<open>body (log_request r w) = body w\<close>
  by (simp add: log_request_def log_Printf_def)

lemma status_pattern: \<open>regexp_MatchString ''^/hawkular/metrics/status$'' p = (p = ''/hawkular/metrics/status'')\<close>
  by (simp add: regexp_MatchString_def Let_def)

lemma Serve_handler_unfold:
  \<open>Serve_handler c cfg core w r =
     (let inner = (if gzip cfg then GzipDecodeDecorator c (GzipEncodeDecorator c core) else core);
          w' = fold (\<lambda>(k, v). Header_Set k v) (defaultHeaders c) (log_request r w)
      in if token cfg \<noteq> [] then
           AuthDecorator (validToken c) (token cfg) ''^/hawkular/metrics/status$'' inner w' r
         else inner w' r)\<close>
  by (simp add: Serve_handler_def Serve_decorators_def middleware_Append_def LoggingDecorator_def
      Logger_ServeHTTP_def DefaultHeadersDecorator_def Let_def)

lemma map_of_put_point: \<open>map_of (put_point p qs) = (map_of qs)(fst p \<mapsto> snd p)\<close>
  by (induction qs) (auto simp add: fun_upd_twist)

lemma set_put_point: \<open>set (put_point p qs) \<subseteq> insert p (set qs)\<close>
  by (induction qs) auto

lemma sorted_put_point:
  \<open>sorted_wrt (<) (map fst qs) \<Longrightarrow> sorted_wrt (<) (map fst (put_point p qs))\<close>
proof (induction qs)
  case Nil
  then show ?case by simp
next
  case (Cons q qs)
  show ?case
  proof (cases \<open>fst p < fst q\<close>)
    case True
    with Cons.prems show ?thesis by auto
  next
    case False
    note nlt = this
    show ?thesis
    proof (cases \<open>fst p = fst q\<close>)
      case True
      with Cons.prems show ?thesis by auto
    next
      case False
      with nlt have lt: \<open>fst q < fst p\<close> by simp
      have \<open>\<forall>x \<in> set (put_point p qs). fst q < fst x\<close>
        using set_put_point [of p qs] Cons.prems lt by auto
      with Cons lt nlt False show ?thesis by auto
    qed
  qed
qed

lemma sorted_fold_put_point:
  \<open>sorted_wrt (<) (map fst qs) \<Longrightarrow> sorted_wrt (<) (map fst (fold put_point pts qs))\<close>
  by (induction pts arbitrary: qs) (auto simp add: sorted_put_point)

lemma map_of_fold_put_point:
  \<open>map_of (fold put_point pts qs) = map_of (rev pts @ qs)\<close>
proof (induction pts arbitrary: qs)
  case Nil
  then show ?case by simp
next
  case (Cons p pts)
  have \<open>map_of (fold put_point (p # pts) qs) = map_of (rev pts @ put_point p qs)\<close>
    using Cons.IH [of \<open>put_point p qs\<close>] by simp
  also have \<open>\<dots> = map_of (put_point p qs) ++ map_of (rev pts)\<close>
    by simp
  also have \<open>\<dots> = map_of (p # qs) ++ map_of (rev pts)\<close>
    by (simp add: map_of_put_point)
  also have \<open>\<dots> = map_of (rev (p # pts) @ qs)\<close>
    by simp
  finally show ?case .
qed

lemma map_of_rev_last:
  \<open>filter (\<lambda>p. fst p = T) pts \<noteq> [] \<Longrightarrow>
   map_of (rev pts) T = Some (snd (last (filter (\<lambda>p. fst p = T) pts)))\<close>
proof (induction pts rule: rev_induct)
  case Nil
  then show ?case by simp
next
  case (snoc p pts)
  then show ?case by (cases p) (auto simp add: map_of_append)
qed

lemma filter_key_sorted:
  \<open>sorted_wrt (<) (map fst (qs :: (int \<times> 'v) list)) \<Longrightarrow> map_of qs T = Some v \<Longrightarrow>
   filter (\<lambda>q. fst q = T) qs = [(T, v)]\<close>
proof (induction qs)
  case Nil
  then show ?case by simp
next
  case (Cons q qs)
  show ?case
  proof (cases \<open>fst q = T\<close>)
    case True
    with Cons.prems have \<open>\<forall>x \<in> set qs. fst x \<noteq> T\<close> by fastforce
    then have \<open>filter (\<lambda>q. fst q = T) qs = []\<close> by (simp add: filter_empty_conv)
    with True Cons.prems show ?thesis by (cases q) auto
  next
    case False
    with Cons show ?thesis by (cases q) auto
  qed
qed

lemma storage_Write_points:
  \<open>(case storage_Write tn' m' pts S (tn, m) of None \<Rightarrow> [] | Some qs \<Rightarrow> qs) =
     fold put_point (if tn' = tn \<and> m' = m then pts else [])
       (case S (tn, m) of None \<Rightarrow> [] | Some qs \<Rightarrow> qs)\<close>
  by (simp add: storage_Write_def)

lemma storage_Writes_points:
  \<open>(case storage_Writes calls S (tn, m) of None \<Rightarrow> [] | Some qs \<Rightarrow> qs) =
     fold put_point (written_to tn m calls) (case S (tn, m) of None \<Rightarrow> [] | Some qs \<Rightarrow> qs)\<close>
proof (induction calls arbitrary: S)
  case Nil
  then show ?case by simp
next
  case (Cons call calls)
  obtain tn' m' pts where call: \<open>call = (tn', m', pts)\<close> by (cases call)
  show ?case
    by (simp add: call Cons.IH storage_Write_points)
qed

lemma storage_Writes_keeps: \<open>S k \<noteq> None \<Longrightarrow> storage_Writes calls S k \<noteq> None\<close>
proof (induction calls arbitrary: S)
  case Nil
  then show ?case by simp
next
  case (Cons call calls)
  obtain tn' m' pts where call: \<open>call = (tn', m', pts)\<close> by (cases call)
  have \<open>storage_Write tn' m' pts S k \<noteq> None\<close>
    using Cons.prems by (simp add: storage_Write_def)
  then have \<open>storage_Writes calls (storage_Write tn' m' pts S) k \<noteq> None\<close>
    by (rule Cons.IH)
  then show ?case by (simp add: call)
qed

lemma storage_Writes_defined:
  \<open>written_to tn m calls \<noteq> [] \<Longrightarrow> storage_Writes calls S (tn, m) \<noteq> None\<close>
proof (induction calls arbitrary: S)
  case Nil
  then show ?case by simp
next
  case (Cons call calls)
  obtain tn' m' pts where call: \<open>call = (tn', m', pts)\<close> by (cases call)
  show ?case
  proof (cases \<open>tn' = tn \<and> m' = m\<close>)
    case True
    then have \<open>storage_Write tn' m' pts S (tn, m) \<noteq> None\<close>
      by (simp add: storage_Write_def)
    then have \<open>storage_Writes calls (storage_Write tn' m' pts S) (tn, m) \<noteq> None\<close>
      by (rule storage_Writes_keeps)
    then show ?thesis by (simp add: call)
  next
    case False
    with Cons.prems have \<open>written_to tn m calls \<noteq> []\<close> by (auto simp add: call)
    then have \<open>storage_Writes calls (storage_Write tn' m' pts S) (tn, m) \<noteq> None\<close>
      by (rule Cons.IH)
    then show ?thesis by (simp add: call)
  qed
qed

lemma alert_tick_cases:
  \<open>(snd (alert_tick a obs) = [] \<and> fst (alert_tick a obs) = a)
   \<or> (snd (alert_tick a obs) = [Fire] \<and> state a = OK \<and> state (fst (alert_tick a obs)) = FIRING)
   \<or> (snd (alert_tick a obs) = [Resolve] \<and> state a = FIRING \<and> state (fst (alert_tick a obs)) = OK)\<close>
  by (cases obs) (auto simp add: alert_tick_def)

lemma alert_run_alternates:
  \<open>distinct_adj (concat (alert_run a obss))
   \<and> (concat (alert_run a obss) \<noteq> [] \<longrightarrow>
        hd (concat (alert_run a obss)) = (if state a = OK then Fire else Resolve))\<close>
proof (induction obss arbitrary: a)
  case Nil
  then show ?case by simp
next
  case (Cons obs obss)
  let ?a' = \<open>fst (alert_tick a obs)\<close>
  note IH = Cons.IH [of ?a']
  from alert_tick_cases [of a obs] show ?case
  proof (elim disjE conjE)
    assume \<open>snd (alert_tick a obs) = []\<close> \<open>?a' = a\<close>
    with IH show ?thesis by simp
  next
    assume \<open>snd (alert_tick a obs) = [Fire]\<close> \<open>state a = OK\<close> \<open>state ?a' = FIRING\<close>
    with IH show ?thesis by (auto simp add: distinct_adj_Cons)
  next
    assume \<open>snd (alert_tick a obs) = [Resolve]\<close> \<open>state a = FIRING\<close> \<open>state ?a' = OK\<close>
    with IH show ?thesis by (auto simp add: distinct_adj_Cons)
  qed
qed

lemma no_repeat_between:
  assumes \<open>distinct_adj ns\<close> and \<open>i < j\<close> and \<open>j < length ns\<close>
    and \<open>ns ! i = Fire\<close> and \<open>ns ! j = Fire\<close>
  shows \<open>\<exists>k. i < k \<and> k < j \<and> ns ! k = Resolve\<close>
proof -
  from assms(2,3) have \<open>Suc i < length ns\<close> by simp
  with assms(1) have \<open>ns ! i \<noteq> ns ! Suc i\<close>
    by (simp add: distinct_adj_conv_nth)
  with assms(4) have r: \<open>ns ! Suc i = Resolve\<close>
    by (cases \<open>ns ! Suc i\<close>) auto
  with assms(5) have \<open>Suc i \<noteq> j\<close> by auto
  with assms(2) have \<open>Suc i < j\<close> by simp
  with r show ?thesis by blast
qed

subsection \<open>The bad-request handler\<close>

text \<open>
  C1. When the bad-request handler gets a request on a response writer that nothing was
  written to, it answers an \<open>OPTIONS\<close> request with status 200 and the fixed body
  \<open>{"GET":{},"PUT":{},"POST":{}}\<close>, and a request of any other method with status 404
  and the body \<open>Page not found - 404\<close> and a newline.
\<close>

theorem BadRequest_ServeHTTP_response:
  \<open>status w = None \<Longrightarrow>
   (Method r = ''OPTIONS'' \<longrightarrow>
      status (BadRequest_ServeHTTP b w r) = Some 200
      \<and> body (BadRequest_ServeHTTP b w r) = body w @ ''{"GET":{},"PUT":{},"POST":{}}'')
   \<and> (Method r \<noteq> ''OPTIONS'' \<longrightarrow>
      status (BadRequest_ServeHTTP b w r) = Some 404
      \<and> body (BadRequest_ServeHTTP b w r) = body w @ ''Page not found - 404\<newline>'')\<close>
  by (simp add: BadRequest_ServeHTTP_def Fprintf_def Write_def WriteHeader_def Header_Set_def
      log_request_def log_Printf_def capability_body_def Let_def)

theorem BadRequest_ServeHTTP_response_witness:
  \<open>status new_conn = None
   \<and> Method (demo_request ''OPTIONS'' ''/nowhere'') = ''OPTIONS''
   \<and> status (BadRequest_ServeHTTP \<lparr>Verbose = False\<rparr> new_conn
         (demo_request ''OPTIONS'' ''/nowhere'')) = Some 200
   \<and> body (BadRequest_ServeHTTP \<lparr>Verbose = False\<rparr> new_conn
         (demo_request ''OPTIONS'' ''/nowhere'')) = ''{"GET":{},"PUT":{},"POST":{}}''
   \<and> Method (demo_request ''GET'' ''/nowhere'') \<noteq> ''OPTIONS''
   \<and> status (BadRequest_ServeHTTP \<lparr>Verbose = False\<rparr> new_conn
         (demo_request ''GET'' ''/nowhere'')) = Some 404
   \<and> body (BadRequest_ServeHTTP \<lparr>Verbose = False\<rparr> new_conn
         (demo_request ''GET'' ''/nowhere'')) = ''Page not found - 404\<newline>''\<close>
proof -
  have fresh: \<open>status new_conn = None\<close> and empty: \<open>body new_conn = []\<close>
    by (simp_all add: new_conn_def)
  have opt: \<open>Method (demo_request ''OPTIONS'' ''/nowhere'') = ''OPTIONS''\<close>
    and get: \<open>Method (demo_request ''GET'' ''/nowhere'') \<noteq> ''OPTIONS''\<close>
    by (simp_all add: demo_request_def)
  show ?thesis
    using
      BadRequest_ServeHTTP_response [OF fresh,
        of \<open>demo_request ''OPTIONS'' ''/nowhere''\<close> \<open>\<lparr>Verbose = False\<rparr>\<close>]
      BadRequest_ServeHTTP_response [OF fresh,
        of \<open>demo_request ''GET'' ''/nowhere''\<close> \<open>\<lparr>Verbose = False\<rparr>\<close>]
      fresh empty opt get
    by simp
qed

text \<open>
  C10. The bad-request handler is terminal: \<open>SetNext\<close> gives the handler back
  unchanged whatever its argument, and the response of \<open>ServeHTTP\<close> is the same for
  any two successors given to \<open>SetNext\<close>: the handler has no successor to call.
\<close>

theorem BadRequest_terminal:
  \<open>BadRequest_SetNext b h = b
   \<and> BadRequest_ServeHTTP (BadRequest_SetNext b h1) w r
       = BadRequest_ServeHTTP (BadRequest_SetNext b h2) w r\<close>
  by (simp add: BadRequest_SetNext_def)

subsection \<open>The status handler\<close>

text \<open>
  C6. When \<open>Serve\<close> starts the server with backend \<open>db\<close>, it has set
  \<open>BackendName\<close> to the \<open>Name\<close> of \<open>db\<close>, and the core handler of the server hands
  every \<open>GET\<close> request on the path \<open>/hawkular/metrics/status\<close> to \<open>GetStatus\<close>.
  \<open>GetStatus\<close> always calls \<open>WriteHeader(200)\<close> and then writes the body
  \<open>{"MetricsService":"STARTED","Implementation-Version":"0.21.0","MohawkVersion":"0.22.1","MohawkBackend":"\<dots>"}\<close>
  with that name in the last field, followed by a newline: the status of the response is
  200 unless a status was written before, and the body is added to what was written
  before. Through the whole handler of the server, gzip off, a response writer that
  nothing was written to ends with status 200 and that body, with or without a token. The
  \<open>GetStatus\<close> of the earlier \<open>main.go\<close> does the same with version 0.10.2.
\<close>

theorem GetStatus_response:
  assumes \<open>select_backend (backendQuery cfg) = Some db\<close>
    and \<open>ParseQuery c (optionsQuery cfg) = Inr opts\<close>
    and \<open>Method r = ''GET''\<close>
    and \<open>Path r = ''/hawkular/metrics/status''\<close>
  shows \<open>(\<exists>s. Serve c cfg = ListenAndServe s \<and> BackendName s = Name c db
             \<and> srvHandler s = Serve_handler c cfg (Serve_core c cfg db opts router_list))
    \<and> Serve_core c cfg db opts router_list w r = GetStatus (Name c db) w r Map.empty
    \<and> status (GetStatus (Name c db) w r a)
        = Some (case status w of None \<Rightarrow> 200 | Some code \<Rightarrow> code)
    \<and> body (GetStatus (Name c db) w r a) =
        body w @ ''{"MetricsService":"STARTED","Implementation-Version":"0.21.0","MohawkVersion":"0.22.1","MohawkBackend":"''
          @ Name c db @ ''"}\<newline>''
    \<and> (status w = None \<and> \<not> gzip cfg \<longrightarrow>
         status (Serve_handler c cfg (Serve_core c cfg db opts router_list) w r) = Some 200
         \<and> body (Serve_handler c cfg (Serve_core c cfg db opts router_list) w r) =
             body w @ ''{"MetricsService":"STARTED","Implementation-Version":"0.21.0","MohawkVersion":"0.22.1","MohawkBackend":"''
               @ Name c db @ ''"}\<newline>'')
    \<and> status (main_GetStatus (Name c db) w r a)
        = Some (case status w of None \<Rightarrow> 200 | Some code \<Rightarrow> code)
    \<and> body (main_GetStatus (Name c db) w r a) =
        body w @ ''{"MetricsService":"STARTED","Implementation-Version":"0.21.0","MohawkVersion":"0.10.2","MohawkBackend":"''
          @ Name c db @ ''"}\<newline>''\<close>
proof -
  have dispatch: \<open>Serve_core c cfg db opts router_list w0 r = GetStatus (Name c db) w0 r Map.empty\<close>
    for w0
    using assms(3,4)
    by (simp add: Serve_core_def router_Append_routers_Match status_dispatch Serve_handlers_def)
  have through: \<open>Serve_handler c cfg core w r =
      core (fold (\<lambda>(k, v). Header_Set k v) (defaultHeaders c) (log_request r w)) r\<close>
    if \<open>\<not> gzip cfg\<close> for core
    using that assms(4)
    by (simp add: Serve_handler_unfold AuthDecorator_def status_pattern Let_def)
  have whole: \<open>status (Serve_handler c cfg (Serve_core c cfg db opts router_list) w r) = Some 200
         \<and> body (Serve_handler c cfg (Serve_core c cfg db opts router_list) w r) =
             body w @ ''{"MetricsService":"STARTED","Implementation-Version":"0.21.0","MohawkVersion":"0.22.1","MohawkBackend":"''
               @ Name c db @ ''"}\<newline>''\<close>
    if \<open>status w = None\<close> and \<open>\<not> gzip cfg\<close>
    using that
    by (simp add: through dispatch GetStatus_always status_fold_Header_Set status_log_request
        body_fold_Header_Set body_log_request)
  from Serve_started [OF assms(1,2)] dispatch [of w] whole GetStatus_always [of \<open>Name c db\<close> w r a]
    main_GetStatus_always [of \<open>Name c db\<close> w r a]
  show ?thesis by blast
qed

theorem GetStatus_response_witness:
  \<open>select_backend (backendQuery (demo_config ''memory'' ''a=1'' ''secret'')) = Some memory_Backend
   \<and> ParseQuery demo_collab (optionsQuery (demo_config ''memory'' ''a=1'' ''secret'')) = Inr ''a=1''
   \<and> Method (demo_request ''GET'' ''/hawkular/metrics/status'') = ''GET''
   \<and> Path (demo_request ''GET'' ''/hawkular/metrics/status'') = ''/hawkular/metrics/status''
   \<and> status new_conn = None
   \<and> \<not> gzip (demo_config ''memory'' ''a=1'' ''secret'')
   \<and> Serve_core demo_collab (demo_config ''memory'' ''a=1'' ''secret'') memory_Backend ''a=1''
         router_list new_conn (demo_request ''GET'' ''/hawkular/metrics/status'')
       = GetStatus ''Backend-Memory'' new_conn (demo_request ''GET'' ''/hawkular/metrics/status'')
           Map.empty
   \<and> status (Serve_handler demo_collab (demo_config ''memory'' ''a=1'' ''secret'')
         (Serve_core demo_collab (demo_config ''memory'' ''a=1'' ''secret'') memory_Backend ''a=1''
            router_list)
         new_conn (demo_request ''GET'' ''/hawkular/metrics/status'')) = Some 200
   \<and> body (Serve_handler demo_collab (demo_config ''memory'' ''a=1'' ''secret'')
         (Serve_core demo_collab (demo_config ''memory'' ''a=1'' ''secret'') memory_Backend ''a=1''
            router_list)
         new_conn (demo_request ''GET'' ''/hawkular/metrics/status'')) =
       ''{"MetricsService":"STARTED","Implementation-Version":"0.21.0","MohawkVersion":"0.22.1","MohawkBackend":"Backend-Memory"}\<newline>''\<close>
proof -
  have a: \<open>select_backend (backendQuery (demo_config ''memory'' ''a=1'' ''secret''))
             = Some memory_Backend\<close>
    by (simp add: select_backend_def demo_config_def)
  have b: \<open>ParseQuery demo_collab (optionsQuery (demo_config ''memory'' ''a=1'' ''secret''))
             = Inr ''a=1''\<close>
    by (simp add: demo_collab_def demo_config_def)
  have m: \<open>Method (demo_request ''GET'' ''/hawkular/metrics/status'') = ''GET''\<close>
    and p: \<open>Path (demo_request ''GET'' ''/hawkular/metrics/status'') = ''/hawkular/metrics/status''\<close>
    by (simp_all add: demo_request_def)
  have f: \<open>status new_conn = None\<close> and e: \<open>body new_conn = []\<close>
    by (simp_all add: new_conn_def)
  have g: \<open>\<not> gzip (demo_config ''memory'' ''a=1'' ''secret'')\<close>
    by (simp add: demo_config_def)
  have n: \<open>Name demo_collab memory_Backend = ''Backend-Memory''\<close>
    by (simp add: demo_collab_def)
  show ?thesis
    using GetStatus_response [OF a b m p, of new_conn Map.empty] a b m p f e g n
    by simp
qed

subsection \<open>Startup\<close>

text \<open>
  C8. When the storage name is none of \<open>sqlite\<close>, \<open>memory\<close>, \<open>mongo\<close>,
  \<open>example\<close>, or the options string does not parse as a URL query, \<open>Serve\<close> logs the
  cause (the storage name when that is at fault, else the options string) and exits with
  status 1; it does not come to listen.
\<close>

theorem Serve_fatal:
  assumes \<open>backendQuery cfg \<notin> {''sqlite'', ''memory'', ''mongo'', ''example''}
           \<or> isl (ParseQuery c (optionsQuery cfg))\<close>
  shows \<open>Serve c cfg =
           Exit 1 [log_entry (if backendQuery cfg \<notin> {''sqlite'', ''memory'', ''mongo'', ''example''}
                              then ''Can't find storage:'' @ backendQuery cfg
                              else ''Can't parse opetions:'' @ optionsQuery cfg)]
         \<and> (\<forall>s. Serve c cfg \<noteq> ListenAndServe s)\<close>
  using assms by (auto simp add: Serve_def select_backend_def isl_def split: sum.splits)

theorem Serve_fatal_witness:
  \<open>backendQuery (demo_config ''redis'' ''a=1'' []) \<notin> {''sqlite'', ''memory'', ''mongo'', ''example''}
   \<and> Serve demo_collab (demo_config ''redis'' ''a=1'' []) = Exit 1 [''Can't find storage:redis\<newline>'']
   \<and> isl (ParseQuery demo_collab (optionsQuery (demo_config ''memory'' ''a=%zz'' [])))
   \<and> Serve demo_collab (demo_config ''memory'' ''a=%zz'' [])
       = Exit 1 [''Can't parse opetions:a=%zz\<newline>'']\<close>
proof -
  have a: \<open>backendQuery (demo_config ''redis'' ''a=1'' [])
             \<notin> {''sqlite'', ''memory'', ''mongo'', ''example''}\<close>
    by (simp add: demo_config_def)
  have b: \<open>isl (ParseQuery demo_collab (optionsQuery (demo_config ''memory'' ''a=%zz'' [])))\<close>
    by (simp add: demo_config_def demo_collab_def)
  have c: \<open>backendQuery (demo_config ''memory'' ''a=%zz'' []) = ''memory''\<close>
    \<open>optionsQuery (demo_config ''memory'' ''a=%zz'' []) = ''a=%zz''\<close>
    \<open>backendQuery (demo_config ''redis'' ''a=1'' []) = ''redis''\<close>
    by (simp_all add: demo_config_def)
  show ?thesis
    using Serve_fatal [of \<open>demo_config ''redis'' ''a=1'' []\<close> demo_collab, OF disjI1, OF a]
      Serve_fatal [of \<open>demo_config ''memory'' ''a=%zz'' []\<close> demo_collab, OF disjI2, OF b] a b
    by (simp add: c log_entry_def)
qed

subsection \<open>The route set\<close>

text \<open>
  C2, as stated, fails: the route set is not exactly the table of section 6. The route
  \<open>GET gauges/:id/data\<close> is registered and is not in the table.
\<close>

theorem routes_beyond_table:
  \<open>(''GET'', ''/hawkular/metrics/gauges/:id/data'') \<in> set Serve_registered
   \<and> (''GET'', ''/hawkular/metrics/gauges/:id/data'') \<notin> set section6_table\<close>
  by (simp add: Serve_registered_eq section6_table_def)

text \<open>
  C2, amended. The route set is the table of section 6 together with the six deprecated
  routes (\<open>GET :id/data\<close>, \<open>POST data\<close> and \<open>POST stats/query\<close> of gauges and of
  counters), and no route is in both. So every route of the table is registered; the routes
  of availability are \<open>GET :id/raw\<close> and \<open>GET :id/stats\<close> only; and the only
  \<open>PUT\<close> and \<open>DELETE\<close> routes are \<open>PUT tags\<close>, \<open>PUT :id/tags\<close>,
  \<open>DELETE :id/raw\<close> and \<open>DELETE :id/tags/:tags\<close> of gauges and \<open>PUT :id/tags\<close> of
  counters.
\<close>

theorem routes_table_and_deprecated:
  \<open>set Serve_registered = set section6_table \<union> set deprecated_routes
   \<and> set section6_table \<inter> set deprecated_routes = {}
   \<and> filter (\<lambda>(m, p). take 31 p = ''/hawkular/metrics/availability/'') Serve_registered
       = [(''GET'', ''/hawkular/metrics/availability/:id/raw''),
          (''GET'', ''/hawkular/metrics/availability/:id/stats'')]
   \<and> filter (\<lambda>(m, p). m = ''PUT'' \<or> m = ''DELETE'') Serve_registered
       = [(''PUT'', ''/hawkular/metrics/gauges/tags''),
          (''PUT'', ''/hawkular/metrics/gauges/:id/tags''),
          (''DELETE'', ''/hawkular/metrics/gauges/:id/raw''),
          (''DELETE'', ''/hawkular/metrics/gauges/:id/tags/:tags''),
          (''PUT'', ''/hawkular/metrics/counters/:id/tags'')]\<close>
proof -
  have a: \<open>set Serve_registered = set section6_table \<union> set deprecated_routes\<close>
    unfolding Serve_registered_eq section6_table_def deprecated_routes_def
    by (simp add: insert_commute)
  have b: \<open>set section6_table \<inter> set deprecated_routes = {}\<close>
    by (simp add: section6_table_def deprecated_routes_def)
  have c: \<open>filter (\<lambda>(m, p). take 31 p = ''/hawkular/metrics/availability/'') Serve_registered
       = [(''GET'', ''/hawkular/metrics/availability/:id/raw''),
          (''GET'', ''/hawkular/metrics/availability/:id/stats'')]\<close>
    by (simp add: Serve_registered_eq)
  have d: \<open>filter (\<lambda>(m, p). m = ''PUT'' \<or> m = ''DELETE'') Serve_registered
       = [(''PUT'', ''/hawkular/metrics/gauges/tags''),
          (''PUT'', ''/hawkular/metrics/gauges/:id/tags''),
          (''DELETE'', ''/hawkular/metrics/gauges/:id/raw''),
          (''DELETE'', ''/hawkular/metrics/gauges/:id/tags/:tags''),
          (''PUT'', ''/hawkular/metrics/counters/:id/tags'')]\<close>
    by (simp add: Serve_registered_eq)
  from a b c d show ?thesis by blast
qed

subsection \<open>The chain of routers\<close>

text \<open>
  C7. The registrations of \<open>Serve\<close> succeed, and the core handler over the routers
  gauges, counters, availability and root, in this order, hands a request to the handler of
  the first of them that reports a match, with the parameters of that match; when none
  matches, the request goes to the static-file decorator around the bad-request handler.
\<close>

theorem core_tries_routers_in_order:
  \<open>\<exists>G C A Rt.
     rGauges = Some G \<and> rCounters = Some C \<and> rAvailability = Some A \<and> rRoot = Some Rt
     \<and> Serve_routers = Some [G, C, A, Rt]
     \<and> (\<forall>w r. Serve_core c cfg db opts [G, C, A, Rt] w r =
          (case Router_Match G (Method r) (Path r) of
             Some (h, a) \<Rightarrow> Serve_handlers c cfg db opts h w r a
           | None \<Rightarrow>
          (case Router_Match C (Method r) (Path r) of
             Some (h, a) \<Rightarrow> Serve_handlers c cfg db opts h w r a
           | None \<Rightarrow>
          (case Router_Match A (Method r) (Path r) of
             Some (h, a) \<Rightarrow> Serve_handlers c cfg db opts h w r a
           | None \<Rightarrow>
          (case Router_Match Rt (Method r) (Path r) of
             Some (h, a) \<Rightarrow> Serve_handlers c cfg db opts h w r a
           | None \<Rightarrow>
               FileServeDecorator c (media cfg) (BadRequest_ServeHTTP \<lparr>Verbose = False\<rparr>) w r)))))\<close>
  by (simp add: Serve_routers_def rRoot_eq rGauges_eq rCounters_eq rAvailability_eq
      Serve_core_def Serve_fallback_def cong: option.case_cong)



subsection \<open>Authentication\<close>

text \<open>
  C3. With a token configured, a request whose path does not match the exemption pattern
  and that has no valid token gets status 401 on a response writer that nothing was
  written to, and the response is the same whatever the core handler is: the routers are
  not reached. The pattern matches the path \<open>/hawkular/metrics/status\<close> and no
  other. A request to that path, with or without a token, and any request when the
  configured token is empty, goes from the default-headers decorator straight on to the
  stages after authentication (gzip when enabled, then the core handler).
\<close>

theorem authentication_stage:
  \<open>(token cfg \<noteq> [] \<and> \<not> regexp_MatchString ''^/hawkular/metrics/status$'' (Path r)
      \<and> \<not> validToken c (token cfg) r \<and> status w = None \<longrightarrow>
        status (Serve_handler c cfg core w r) = Some 401
        \<and> (\<forall>core'. Serve_handler c cfg core' w r = Serve_handler c cfg core w r))
   \<and> regexp_MatchString ''^/hawkular/metrics/status$'' (Path r)
        = (Path r = ''/hawkular/metrics/status'')
   \<and> (Path r = ''/hawkular/metrics/status'' \<or> token cfg = [] \<longrightarrow>
        Serve_handler c cfg core w r =
          LoggingDecorator (DefaultHeadersDecorator (defaultHeaders c)
            (if gzip cfg then GzipDecodeDecorator c (GzipEncodeDecorator c core) else core)) w r)\<close>
proof -
  have reject: \<open>status (AuthDecorator (validToken c) (token cfg) ''^/hawkular/metrics/status$''
        nxt (fold (\<lambda>(k, v). Header_Set k v) (defaultHeaders c) (log_request r w)) r) = Some 401\<close>
    if \<open>\<not> regexp_MatchString ''^/hawkular/metrics/status$'' (Path r)\<close>
      and \<open>\<not> validToken c (token cfg) r\<close> and \<open>status w = None\<close> for nxt
    using that
    by (simp add: AuthDecorator_def WriteHeader_def status_fold_Header_Set status_log_request)
  have same: \<open>AuthDecorator (validToken c) (token cfg) ''^/hawkular/metrics/status$'' nxt w0 r
        = AuthDecorator (validToken c) (token cfg) ''^/hawkular/metrics/status$'' nxt' w0 r\<close>
    if \<open>\<not> regexp_MatchString ''^/hawkular/metrics/status$'' (Path r)\<close>
      and \<open>\<not> validToken c (token cfg) r\<close> for nxt nxt' w0
    using that by (simp add: AuthDecorator_def)
  have pass: \<open>AuthDecorator (validToken c) (token cfg) ''^/hawkular/metrics/status$'' nxt w0 r
        = nxt w0 r\<close>
    if \<open>Path r = ''/hawkular/metrics/status''\<close> for nxt w0
    using that by (simp add: AuthDecorator_def status_pattern)
  show ?thesis
    using reject same pass
    by (auto simp add: Serve_handler_unfold status_pattern LoggingDecorator_def
        Logger_ServeHTTP_def DefaultHeadersDecorator_def Let_def)
qed

theorem authentication_stage_witness:
  \<open>token (demo_config ''memory'' [] ''secret'') \<noteq> []
   \<and> \<not> regexp_MatchString ''^/hawkular/metrics/status$'' (Path (demo_request ''GET'' ''/hawkular/metrics/tenants''))
   \<and> \<not> validToken demo_collab (token (demo_config ''memory'' [] ''secret'')) (demo_request ''GET'' ''/hawkular/metrics/tenants'')
   \<and> status new_conn = None
   \<and> status (Serve_handler demo_collab (demo_config ''memory'' [] ''secret'') (\<lambda>w r. Fprintln w ''core'')
        new_conn (demo_request ''GET'' ''/hawkular/metrics/tenants'')) = Some 401
   \<and> Path (demo_request ''GET'' ''/hawkular/metrics/status'') = ''/hawkular/metrics/status''
   \<and> body (Serve_handler demo_collab (demo_config ''memory'' [] ''secret'') (\<lambda>w r. Fprintln w ''core'')
        new_conn (demo_request ''GET'' ''/hawkular/metrics/status'')) = ''core\<newline>''
   \<and> token (demo_config ''memory'' [] []) = []
   \<and> body (Serve_handler demo_collab (demo_config ''memory'' [] []) (\<lambda>w r. Fprintln w ''core'')
        new_conn (demo_request ''GET'' ''/hawkular/metrics/tenants'')) = ''core\<newline>''\<close>
proof -
  have t: \<open>token (demo_config ''memory'' [] ''secret'') \<noteq> []\<close>
    \<open>token (demo_config ''memory'' [] []) = []\<close>
    \<open>\<not> gzip (demo_config ''memory'' [] ''secret'')\<close>
    \<open>\<not> gzip (demo_config ''memory'' [] [])\<close>
    by (simp_all add: demo_config_def)
  have p: \<open>\<not> regexp_MatchString ''^/hawkular/metrics/status$''
              (Path (demo_request ''GET'' ''/hawkular/metrics/tenants''))\<close>
    \<open>Path (demo_request ''GET'' ''/hawkular/metrics/status'') = ''/hawkular/metrics/status''\<close>
    by (simp_all add: demo_request_def regexp_MatchString_def Let_def)
  have v: \<open>\<not> validToken demo_collab (token (demo_config ''memory'' [] ''secret''))
              (demo_request ''GET'' ''/hawkular/metrics/tenants'')\<close>
    by (simp add: demo_collab_def demo_request_def)
  have n: \<open>status new_conn = None\<close>
    by (simp add: new_conn_def)
  have core: \<open>body (LoggingDecorator (DefaultHeadersDecorator (defaultHeaders demo_collab)
                 (\<lambda>w r. Fprintln w ''core'')) new_conn rq) = ''core\<newline>''\<close> for rq
    by (simp add: LoggingDecorator_def Logger_ServeHTTP_def DefaultHeadersDecorator_def
        demo_collab_def Fprintln_def Write_def WriteHeader_def Header_Set_def log_request_def
        log_Printf_def new_conn_def Let_def)
  show ?thesis
    using
      authentication_stage [of \<open>demo_config ''memory'' [] ''secret''\<close>
        \<open>demo_request ''GET'' ''/hawkular/metrics/tenants''\<close> demo_collab new_conn
        \<open>\<lambda>w r. Fprintln w ''core''\<close>]
      authentication_stage [of \<open>demo_config ''memory'' [] ''secret''\<close>
        \<open>demo_request ''GET'' ''/hawkular/metrics/status''\<close> demo_collab new_conn
        \<open>\<lambda>w r. Fprintln w ''core''\<close>]
      authentication_stage [of \<open>demo_config ''memory'' [] []\<close>
        \<open>demo_request ''GET'' ''/hawkular/metrics/tenants''\<close> demo_collab new_conn
        \<open>\<lambda>w r. Fprintln w ''core''\<close>]
    by (simp add: t p v n core)
qed

subsection \<open>Storage\<close>

text \<open>
  C4. After any sequence of \<open>Write\<close> calls on an empty store in which some point with
  timestamp \<open>T\<close> is written to a metric, a raw query of that metric over a range that
  contains \<open>T\<close> succeeds and returns exactly one point at \<open>T\<close>; its value is that of
  the last point with timestamp \<open>T\<close> written to the metric. The points returned are in
  strictly ascending order of timestamp.
\<close>

theorem last_write_wins:
  assumes \<open>(T, v0) \<in> set (written_to tenant metric calls)\<close>
    and \<open>start \<le> T\<close> and \<open>T < end\<close>
  shows \<open>\<exists>qs. storage_Query_raw tenant metric start end (storage_Writes calls Map.empty) = Inr qs
    \<and> filter (\<lambda>q. fst q = T) qs
        = [(T, snd (last (filter (\<lambda>p. fst p = T) (written_to tenant metric calls))))]
    \<and> sorted_wrt (<) (map fst qs)\<close>
proof -
  let ?pts = \<open>written_to tenant metric calls\<close>
  let ?S = \<open>storage_Writes calls (Map.empty :: 'a store)\<close>
  let ?all = \<open>fold put_point ?pts []\<close>
  let ?v = \<open>snd (last (filter (\<lambda>p. fst p = T) ?pts))\<close>
  from assms(1) have ne: \<open>?pts \<noteq> []\<close> by auto
  from storage_Writes_defined [OF ne] obtain qs0 where qs0: \<open>?S (tenant, metric) = Some qs0\<close>
    by blast
  have \<open>qs0 = ?all\<close>
    using storage_Writes_points [of calls Map.empty tenant metric] qs0 by simp
  with qs0 have stored: \<open>?S (tenant, metric) = Some ?all\<close> by simp
  have sorted: \<open>sorted_wrt (<) (map fst ?all)\<close>
    by (rule sorted_fold_put_point) simp
  from assms(1) have \<open>filter (\<lambda>p. fst p = T) ?pts \<noteq> []\<close>
    by (force simp add: filter_empty_conv)
  then have \<open>map_of (rev ?pts) T = Some ?v\<close>
    by (rule map_of_rev_last)
  then have \<open>map_of ?all T = Some ?v\<close>
    by (simp add: map_of_fold_put_point)
  with sorted have at_T: \<open>filter (\<lambda>q. fst q = T) ?all = [(T, ?v)]\<close>
    by (rule filter_key_sorted)
  let ?qs = \<open>filter (\<lambda>q. start \<le> fst q \<and> fst q < end) ?all\<close>
  have q: \<open>storage_Query_raw tenant metric start end ?S = Inr ?qs\<close>
    by (simp add: storage_Query_raw_def stored)
  have \<open>filter (\<lambda>q. fst q = T) ?qs = filter (\<lambda>q. fst q = T) ?all\<close>
    using assms(2,3) by (auto intro: filter_cong)
  with at_T have one: \<open>filter (\<lambda>q. fst q = T) ?qs = [(T, ?v)]\<close> by simp
  have \<open>sorted_wrt (<) (map fst ?qs)\<close>
    using sorted by (simp add: sorted_wrt_map sorted_wrt_filter)
  with q one show ?thesis by blast
qed

theorem last_write_wins_witness:
  \<open>(10, 1) \<in> set (written_to ''t'' ''m''
       [(''t'', ''m'', [(10, 1::int), (20, 2)]), (''t'', ''other'', [(10, 7)]), (''t'', ''m'', [(10, 3)])])
   \<and> (0::int) \<le> 10 \<and> (10::int) < 100
   \<and> storage_Query_raw ''t'' ''m'' 0 100
        (storage_Writes
          [(''t'', ''m'', [(10, 1::int), (20, 2)]), (''t'', ''other'', [(10, 7)]), (''t'', ''m'', [(10, 3)])]
          Map.empty)
       = Inr [(10, 3), (20, 2)]
   \<and> filter (\<lambda>q. fst q = 10) [(10, 3::int), (20::int, 2)] = [(10, 3)]\<close>
proof -
  have a: \<open>(10, 1) \<in> set (written_to ''t'' ''m''
       [(''t'', ''m'', [(10, 1::int), (20, 2)]), (''t'', ''other'', [(10, 7)]), (''t'', ''m'', [(10, 3)])])\<close>
    by simp
  have b: \<open>(0::int) \<le> 10\<close> and c: \<open>(10::int) < 100\<close> by simp_all
  have d: \<open>storage_Query_raw ''t'' ''m'' 0 100
        (storage_Writes
          [(''t'', ''m'', [(10, 1::int), (20, 2)]), (''t'', ''other'', [(10, 7)]), (''t'', ''m'', [(10, 3)])]
          Map.empty)
       = Inr [(10, 3), (20, 2)]\<close>
    by (simp add: storage_Query_raw_def storage_Write_def)
  show ?thesis
    using last_write_wins [OF a b c] a d by simp
qed

subsection \<open>Alerts\<close>

text \<open>
  C5. A tick emits a fire notification only when it takes the rule from OK to FIRING, and a
  resolve notification only when it takes the rule from FIRING to OK. A rule with threshold
  90 and operator \<open>>\<close> that starts in OK and sees 80, 95, 85 emits nothing at the first
  tick, one fire at the second and one resolve at the third. In the notifications of any
  run, between two fire notifications there is a resolve notification.
\<close>

theorem alert_edge_triggered:
  \<open>(Fire \<in> set (snd (alert_tick a obs)) \<longrightarrow>
      state a = OK \<and> state (fst (alert_tick a obs)) = FIRING)
   \<and> (Resolve \<in> set (snd (alert_tick a obs)) \<longrightarrow>
      state a = FIRING \<and> state (fst (alert_tick a obs)) = OK)
   \<and> (threshold a = 90 \<and> operator a = (\<lambda>x t. t < x) \<and> state a = OK \<longrightarrow>
      alert_run a [Some 80, Some 95, Some 85] = [[], [Fire], [Resolve]])
   \<and> (\<forall>i j. i < j \<and> j < length (concat (alert_run a obss))
        \<and> concat (alert_run a obss) ! i = Fire \<and> concat (alert_run a obss) ! j = Fire \<longrightarrow>
        (\<exists>k. i < k \<and> k < j \<and> concat (alert_run a obss) ! k = Resolve))\<close>
proof -
  have one: \<open>Fire \<in> set (snd (alert_tick a obs)) \<longrightarrow>
      state a = OK \<and> state (fst (alert_tick a obs)) = FIRING\<close>
    using alert_tick_cases [of a obs] by auto
  have two: \<open>Resolve \<in> set (snd (alert_tick a obs)) \<longrightarrow>
      state a = FIRING \<and> state (fst (alert_tick a obs)) = OK\<close>
    using alert_tick_cases [of a obs] by auto
  have three: \<open>threshold a = 90 \<and> operator a = (\<lambda>x t. t < x) \<and> state a = OK \<longrightarrow>
      alert_run a [Some 80, Some 95, Some 85] = [[], [Fire], [Resolve]]\<close>
    by (simp add: alert_tick_def)
  have four: \<open>\<forall>i j. i < j \<and> j < length (concat (alert_run a obss))
        \<and> concat (alert_run a obss) ! i = Fire \<and> concat (alert_run a obss) ! j = Fire \<longrightarrow>
        (\<exists>k. i < k \<and> k < j \<and> concat (alert_run a obss) ! k = Resolve)\<close>
    using alert_run_alternates [of a obss] no_repeat_between [of \<open>concat (alert_run a obss)\<close>]
    by blast
  from one two three four show ?thesis by blast
qed

theorem alert_edge_triggered_witness:
  \<open>Fire \<in> set (snd (alert_tick demo_alert (Some 95)))
   \<and> state demo_alert = OK \<and> state (fst (alert_tick demo_alert (Some 95))) = FIRING
   \<and> Resolve \<in> set (snd (alert_tick (demo_alert\<lparr>state := FIRING\<rparr>) (Some 85)))
   \<and> state (fst (alert_tick (demo_alert\<lparr>state := FIRING\<rparr>) (Some 85))) = OK
   \<and> threshold demo_alert = 90 \<and> operator demo_alert = (\<lambda>x t. t < x)
   \<and> alert_run demo_alert [Some 80, Some 95, Some 85] = [[], [Fire], [Resolve]]
   \<and> concat (alert_run demo_alert [Some 95, Some 99, Some 80, Some 91]) = [Fire, Resolve, Fire]
   \<and> (\<exists>k. 0 < k \<and> k < 2
         \<and> concat (alert_run demo_alert [Some 95, Some 99, Some 80, Some 91]) ! k = Resolve)\<close>
proof -
  let ?ns = \<open>concat (alert_run demo_alert [Some 95, Some 99, Some 80, Some 91])\<close>
  have f: \<open>Fire \<in> set (snd (alert_tick demo_alert (Some 95)))\<close>
    by (simp add: alert_tick_def demo_alert_def)
  have r: \<open>Resolve \<in> set (snd (alert_tick (demo_alert\<lparr>state := FIRING\<rparr>) (Some 85)))\<close>
    by (simp add: alert_tick_def demo_alert_def)
  have d: \<open>threshold demo_alert = 90 \<and> operator demo_alert = (\<lambda>x t. t < x)
             \<and> state demo_alert = OK\<close>
    by (simp add: demo_alert_def)
  have ns: \<open>?ns = [Fire, Resolve, Fire]\<close>
    by (simp add: alert_tick_def demo_alert_def)
  have pre: \<open>(0::nat) < 2 \<and> 2 < length ?ns \<and> ?ns ! 0 = Fire \<and> ?ns ! 2 = Fire\<close>
    unfolding ns by simp
  note edge = alert_edge_triggered [of demo_alert \<open>Some 95\<close>
      \<open>[Some 95, Some 99, Some 80, Some 91]\<close>]
  from edge have \<open>(0::nat) < 2 \<and> 2 < length ?ns \<and> ?ns ! 0 = Fire \<and> ?ns ! 2 = Fire \<longrightarrow>
      (\<exists>k. 0 < k \<and> k < 2 \<and> ?ns ! k = Resolve)\<close>
    by blast
  with pre have between: \<open>\<exists>k. 0 < k \<and> k < 2 \<and> ?ns ! k = Resolve\<close>
    by blast
  from edge f have one: \<open>state (fst (alert_tick demo_alert (Some 95))) = FIRING\<close>
    by blast
  from edge d have run: \<open>alert_run demo_alert [Some 80, Some 95, Some 85] = [[], [Fire], [Resolve]]\<close>
    by blast
  from alert_edge_triggered [of \<open>demo_alert\<lparr>state := FIRING\<rparr>\<close> \<open>Some 85\<close> \<open>[]\<close>] r
  have two: \<open>state (fst (alert_tick (demo_alert\<lparr>state := FIRING\<rparr>) (Some 85))) = OK\<close>
    by blast
  from f r d ns between one run two show ?thesis by blast
qed

end
